theory Spec2Isabelle
  imports Main
begin

section \<open>Exceptions\<close>

text \<open>
  The Python exception classes the modelled code raises, catches or lets through.
  \<open>PermissionError\<close>, \<open>ProcessLookupError\<close> and \<open>FileNotFoundError\<close> are subclasses of
  \<open>OSError\<close> (as is \<open>socket.gaierror\<close>, which \<open>OSError\<close> stands for here), so an
  \<^verbatim>\<open>except OSError\<close> clause catches them; every class below is a subclass of
  \<open>Exception\<close>, so \<^verbatim>\<open>except Exception\<close> catches all of them.
\<close>

datatype exn =
    OSError
  | PermissionError
  | ProcessLookupError
  | FileNotFoundError
  | OverflowError
  | TypeError
  | AttributeError
  | ValueError
  | JSONDecodeError
  | TimeoutExpired
  | RuntimeError


section \<open>Port management (adw\_modules/port\_manager.py)\<close>

text \<open>
  The operating system is a state \<open>'w\<close> together with the system calls the module makes.
  Each call takes the state and returns its outcome and the next state; an outcome that
  is an exception is a value. \<open>socket_new\<close> is \<^verbatim>\<open>socket.socket(AF_INET, SOCK_STREAM)\<close>,
  \<open>connect_ex\<close> returns the errno of the connection attempt (0 on success),
  \<open>get_process_using_port\<close> is the module's process-table lookup, taken by its result
  (a pid, \<open>None\<close>, or an exception that its own handlers do not catch), and \<open>sleep\<close> lets
  time pass.
\<close>

datatype signal = SIGTERM | SIGKILL

record 'w sys =
  socket_new :: "'w \<Rightarrow> exn option \<times> 'w"
  connect_ex :: "string \<Rightarrow> int \<Rightarrow> 'w \<Rightarrow> (exn + int) \<times> 'w"
  bind :: "string \<Rightarrow> int \<Rightarrow> 'w \<Rightarrow> exn option \<times> 'w"
  get_process_using_port :: "int \<Rightarrow> 'w \<Rightarrow> (exn + int option) \<times> 'w"
  os_kill :: "int \<Rightarrow> signal \<Rightarrow> 'w \<Rightarrow> exn option \<times> 'w"
  sleep :: "'w \<Rightarrow> 'w"

text \<open>
  \<^verbatim>\<open>is_port_in_use(port, host)\<close>: the whole probe sits in \<^verbatim>\<open>try ... except Exception\<close>,
  which returns \<open>False\<close>.
\<close>

definition is_port_in_use :: "'w sys \<Rightarrow> int \<Rightarrow> string \<Rightarrow> 'w \<Rightarrow> bool \<times> 'w" where
  "is_port_in_use S port host w =
     (case socket_new S w of
        (Some e, w1) \<Rightarrow> (False, w1)
      | (None, w1) \<Rightarrow>
          (case connect_ex S host port w1 of
             (Inl e, w2) \<Rightarrow> (False, w2)
           | (Inr result, w2) \<Rightarrow> (result = 0, w2)))"




text \<open>
  What \<^verbatim>\<open>kill_process_on_port\<close> did, in order: the result of a lookup of the owner, a
  signal sent to a pid with the outcome of \<^verbatim>\<open>os.kill\<close> (\<open>None\<close> when it returned), and
  the verdict of the probe that follows a delivered signal.
\<close>

datatype kill_event =
    Looked "int option"
  | Signalled int signal "exn option"
  | Reprobed bool

text \<open>
  \<^verbatim>\<open>kill_process_on_port(port, force, max_retries)\<close>. The loop runs over
  \<^verbatim>\<open>range(max_retries)\<close>; \<open>attempt\<close> is the loop variable and the last numeric argument
  counts the iterations that remain. The lookup is outside the \<^verbatim>\<open>try\<close>, so an exception
  it raises leaves the function. Inside the \<^verbatim>\<open>try\<close>: \<^verbatim>\<open>ProcessLookupError\<close> returns
  \<open>True\<close>, \<^verbatim>\<open>PermissionError\<close> returns \<open>False\<close>, and any other exception is logged and the
  loop goes on.
\<close>

fun kill_attempts ::
  "'w sys \<Rightarrow> int \<Rightarrow> bool \<Rightarrow> nat \<Rightarrow> nat \<Rightarrow> 'w \<Rightarrow> (exn + bool) \<times> kill_event list \<times> 'w" where
  "kill_attempts S port force attempt 0 w = (Inr False, [], w)"
| "kill_attempts S port force attempt (Suc n) w =
     (case get_process_using_port S port w of
        (Inl e, w1) \<Rightarrow> (Inl e, [], w1)
      | (Inr None, w1) \<Rightarrow> (Inr True, [Looked None], w1)
      | (Inr (Some pid), w1) \<Rightarrow>
          (let signal_type = (if force \<or> attempt > 0 then SIGKILL else SIGTERM) in
           case os_kill S pid signal_type w1 of
             (None, w2) \<Rightarrow>
               (case is_port_in_use S port ''127.0.0.1'' (sleep S w2) of
                  (False, w3) \<Rightarrow>
                    (Inr True, [Looked (Some pid), Signalled pid signal_type None, Reprobed False], w3)
                | (True, w3) \<Rightarrow>
                    (case kill_attempts S port force (Suc attempt) n w3 of
                       (r, tr, w') \<Rightarrow>
                         (r, Looked (Some pid) # Signalled pid signal_type None # Reprobed True # tr, w')))
           | (Some e, w2) \<Rightarrow>
               (if e = ProcessLookupError
                then (Inr True, [Looked (Some pid), Signalled pid signal_type (Some e)], w2)
                else if e = PermissionError
                then (Inr False, [Looked (Some pid), Signalled pid signal_type (Some e)], w2)
                else (case kill_attempts S port force (Suc attempt) n w2 of
                        (r, tr, w') \<Rightarrow>
                          (r, Looked (Some pid) # Signalled pid signal_type (Some e) # tr, w')))))"

definition kill_process_on_port ::
  "'w sys \<Rightarrow> int \<Rightarrow> bool \<Rightarrow> int \<Rightarrow> 'w \<Rightarrow> (exn + bool) \<times> kill_event list \<times> 'w" where
  "kill_process_on_port S port force max_retries w =
     kill_attempts S port force 0 (nat max_retries) w"

text \<open>The signals of a trace, in the order they were sent.\<close>

fun signals :: "kill_event list \<Rightarrow> signal list" where
  "signals [] = []"
| "signals (Signalled pid s r # tr) = s # signals tr"
| "signals (ev # tr) = signals tr"

text \<open>
  A concrete host for evaluating the functions above. Its state is the table of
  listening ports with the pid of each owner. Socket creation succeeds, a connection is
  accepted exactly on a listening port (errno 111 is \<open>ECONNREFUSED\<close>), a bind fails with
  \<open>OSError\<close> exactly on a listening port, and the lookup reads the table. The parameter is
  what \<^verbatim>\<open>os.kill\<close> does: with \<open>None\<close> the signalled process exits and its ports are
  released, with \<open>Some e\<close> the call raises \<open>e\<close> and nothing changes.
\<close>

definition listeners_sys :: "exn option \<Rightarrow> ((int \<times> int) list) sys" where
  "listeners_sys kill_outcome =
     \<lparr> socket_new = (\<lambda>w. (None, w)),
       connect_ex = (\<lambda>host port w. (Inr (if map_of w port = None then 111 else 0), w)),
       bind = (\<lambda>host port w. (if map_of w port = None then None else Some OSError, w)),
       get_process_using_port = (\<lambda>port w. (Inr (map_of w port), w)),
       os_kill = (\<lambda>pid s w.
          (case kill_outcome of
             None \<Rightarrow> (None, filter (\<lambda>(port, owner). owner \<noteq> pid) w)
           | Some e \<Rightarrow> (Some e, w))),
       sleep = (\<lambda>w. w) \<rparr>"

text \<open>A host on which no socket can be created: \<^verbatim>\<open>socket.socket\<close> raises \<open>OSError\<close>.\<close>

definition no_socket_sys :: "unit sys" where
  "no_socket_sys =
     \<lparr> socket_new = (\<lambda>w. (Some OSError, w)),
       connect_ex = (\<lambda>host port w. (Inr 111, w)),
       bind = (\<lambda>host port w. (None, w)),
       get_process_using_port = (\<lambda>port w. (Inr None, w)),
       os_kill = (\<lambda>pid s w. (None, w)),
       sleep = (\<lambda>w. w) \<rparr>"

section \<open>Tunnel manager (adw\_triggers/ngrok\_manager.py)\<close>

text \<open>
  The fields of \<^verbatim>\<open>NgrokManager\<close>. \<open>process\<close> is the \<^verbatim>\<open>Popen\<close> handle of the tunnel
  process, identified by its pid; a \<^verbatim>\<open>Popen\<close> object is always truthy, so
  \<^verbatim>\<open>if self.process\<close> tests that the field is not \<open>None\<close>.
\<close>

record ngrok_manager =
  port :: int
  authtoken :: "string option"
  domain :: "string option"
  process :: "nat option"
  tunnel_url :: "string option"
  api_url :: string

text \<open>
  The calls \<^verbatim>\<open>stop_tunnel\<close> makes on the handle, over a state \<open>'w\<close> of the operating
  system. \<open>wait_for\<close> is \<^verbatim>\<open>wait(timeout=t)\<close>, which raises \<open>TimeoutExpired\<close> when the
  process has not exited after \<open>t\<close> seconds; \<open>wait\<close> has no timeout and is taken to return
  or raise.
\<close>

record 'w popen_ops =
  terminate :: "nat \<Rightarrow> 'w \<Rightarrow> exn option \<times> 'w"
  wait_for :: "nat \<Rightarrow> nat \<Rightarrow> 'w \<Rightarrow> exn option \<times> 'w"
  kill :: "nat \<Rightarrow> 'w \<Rightarrow> exn option \<times> 'w"
  wait :: "nat \<Rightarrow> 'w \<Rightarrow> exn option \<times> 'w"

text \<open>What \<^verbatim>\<open>stop_tunnel\<close> did to the process, with the outcome of each call.\<close>

datatype proc_event =
    Terminated nat "exn option"
  | Waited nat "nat option" "exn option"
  | Killed nat "exn option"

text \<open>
  \<^verbatim>\<open>stop_tunnel\<close>. The two assignments that clear the state are the last statements of
  the outer \<^verbatim>\<open>try\<close>; its \<^verbatim>\<open>except Exception\<close> only logs. The inner \<^verbatim>\<open>try\<close> catches
  \<open>TimeoutExpired\<close> alone, and an exception raised inside its handler reaches the outer one.
\<close>

definition stop_tunnel ::
  "'w popen_ops \<Rightarrow> ngrok_manager \<Rightarrow> 'w \<Rightarrow> ngrok_manager \<times> proc_event list \<times> 'w" where
  "stop_tunnel P self w =
     (case process self of
        None \<Rightarrow> (self, [], w)
      | Some p \<Rightarrow>
          (case terminate P p w of
             (Some e, w1) \<Rightarrow> (self, [Terminated p (Some e)], w1)
           | (None, w1) \<Rightarrow>
               (case wait_for P p 5 w1 of
                  (None, w2) \<Rightarrow>
                    (self\<lparr>process := None, tunnel_url := None\<rparr>,
                     [Terminated p None, Waited p (Some 5) None], w2)
                | (Some e, w2) \<Rightarrow>
                    (if e = TimeoutExpired
                     then (case kill P p w2 of
                             (Some e', w3) \<Rightarrow>
                               (self,
                                [Terminated p None, Waited p (Some 5) (Some e), Killed p (Some e')], w3)
                           | (None, w3) \<Rightarrow>
                               (case wait P p w3 of
                                  (Some e'', w4) \<Rightarrow>
                                    (self,
                                     [Terminated p None, Waited p (Some 5) (Some e), Killed p None,
                                      Waited p None (Some e'')], w4)
                                | (None, w4) \<Rightarrow>
                                    (self\<lparr>process := None, tunnel_url := None\<rparr>,
                                     [Terminated p None, Waited p (Some 5) (Some e), Killed p None,
                                      Waited p None None], w4)))
                     else (self, [Terminated p None, Waited p (Some 5) (Some e)], w2)))))"

text \<open>
  An exception that reached the outer handler of \<^verbatim>\<open>stop_tunnel\<close>: one raised by
  \<^verbatim>\<open>terminate\<close>, \<^verbatim>\<open>kill\<close> or the final \<^verbatim>\<open>wait\<close>, or one other than \<open>TimeoutExpired\<close>
  raised by the bounded wait.
\<close>

fun reached_handler :: "proc_event \<Rightarrow> bool" where
  "reached_handler (Terminated p r) = (r \<noteq> None)"
| "reached_handler (Killed p r) = (r \<noteq> None)"
| "reached_handler (Waited p None r) = (r \<noteq> None)"
| "reached_handler (Waited p (Some t) r) = (r \<noteq> None \<and> r \<noteq> Some TimeoutExpired)"

text \<open>
  Concrete tunnel processes for evaluating \<^verbatim>\<open>stop_tunnel\<close>: one that cannot be signalled
  (\<^verbatim>\<open>terminate\<close> raises \<open>PermissionError\<close>), and one that ignores \<open>SIGTERM\<close>, so that the
  bounded wait times out, and exits when killed.
\<close>

definition unsignallable_proc :: "unit popen_ops" where
  "unsignallable_proc =
     \<lparr> terminate = (\<lambda>p w. (Some PermissionError, w)),
       wait_for = (\<lambda>p t w. (Some TimeoutExpired, w)),
       kill = (\<lambda>p w. (Some PermissionError, w)),
       wait = (\<lambda>p w. (None, w)) \<rparr>"

definition stubborn_proc :: "unit popen_ops" where
  "stubborn_proc =
     \<lparr> terminate = (\<lambda>p w. (None, w)),
       wait_for = (\<lambda>p t w. (Some TimeoutExpired, w)),
       kill = (\<lambda>p w. (None, w)),
       wait = (\<lambda>p w. (None, w)) \<rparr>"

definition running_manager :: ngrok_manager where
  "running_manager =
     \<lparr> port = 8001, authtoken = Some ''token'', domain = None, process = Some 4711,
       tunnel_url = Some ''https://abc.ngrok.io'', api_url = ''http://localhost:4040/api'' \<rparr>"

section \<open>Signature validation (adw\_modules/webhook\_security.py)\<close>

text \<open>
  Strings are lists of 8-bit characters. A character is ASCII when its code is below
  128. \<^verbatim>\<open>s.startswith(p)\<close> compares the first \<open>length p\<close> characters of \<open>s\<close> with \<open>p\<close>.
\<close>

definition is_ascii :: "string \<Rightarrow> bool" where
  "is_ascii s = list_all (\<lambda>c. (of_char c :: nat) < 128) s"

definition startswith :: "string \<Rightarrow> string \<Rightarrow> bool" where
  "startswith s p = (take (length p) s = p)"

text \<open>
  \<^verbatim>\<open>hmac.compare_digest(a, b)\<close> on two \<^verbatim>\<open>str\<close> arguments: it raises \<open>TypeError\<close> unless
  both are ASCII, and otherwise tells whether they are equal.
\<close>

definition compare_digest :: "string \<Rightarrow> string \<Rightarrow> exn + bool" where
  "compare_digest a b = (if is_ascii a \<and> is_ascii b then Inr (a = b) else Inl TypeError)"

text \<open>
  \<^verbatim>\<open>validate_github_signature(payload_body, signature_header, secret)\<close>. The first
  argument of the model is the library's keyed hash: \<open>hexdigest secret payload_body\<close> is
  \<^verbatim>\<open>hmac.new(secret.encode("utf-8"), msg=payload_body, digestmod=hashlib.sha256).hexdigest()\<close>.
  \<^verbatim>\<open>not signature_header\<close> holds for \<open>None\<close> and for the empty string.
\<close>

definition validate_github_signature ::
  "(string \<Rightarrow> string \<Rightarrow> string) \<Rightarrow> string \<Rightarrow> string option \<Rightarrow> string \<Rightarrow> exn + bool" where
  "validate_github_signature hexdigest payload_body signature_header secret =
     (case signature_header of
        None \<Rightarrow> Inr False
      | Some header \<Rightarrow>
          (if header = [] \<or> secret = [] then Inr False
           else if \<not> startswith header ''sha256='' then Inr False
           else (let expected_signature = drop 7 header;
                     calculated_signature = hexdigest secret payload_body
                 in compare_digest calculated_signature expected_signature)))"

section \<open>Webhook handler (adw\_triggers/trigger\_webhook.py)\<close>

subsection \<open>JSON values and the Python operations applied to them\<close>

text \<open>
  A parsed payload. Numbers are integers; an object is its list of members, looked up
  by key. A missing key and a \<^verbatim>\<open>null\<close> member both read as Python's \<open>None\<close>, which is
  \<open>JNull\<close>.
\<close>

datatype json =
    JNull
  | JBool bool
  | JNum int
  | JStr string
  | JArr "json list"
  | JObj "(string \<times> json) list"

text \<open>\<^verbatim>\<open>d.get(key, default)\<close>: only a dict has the method; anything else raises.\<close>

fun dict_get :: "json \<Rightarrow> string \<Rightarrow> json \<Rightarrow> exn + json" where
  "dict_get (JObj members) key dflt =
     Inr (case map_of members key of None \<Rightarrow> dflt | Some v \<Rightarrow> v)"
| "dict_get _ key dflt = Inl AttributeError"

text \<open>Truth value of a Python object, as \<^verbatim>\<open>if x\<close> and \<^verbatim>\<open>x and y\<close> take it.\<close>

fun truthy :: "json \<Rightarrow> bool" where
  "truthy JNull = False"
| "truthy (JBool b) = b"
| "truthy (JNum n) = (n \<noteq> 0)"
| "truthy (JStr s) = (s \<noteq> [])"
| "truthy (JArr xs) = (xs \<noteq> [])"
| "truthy (JObj members) = (members \<noteq> [])"

text \<open>Truth value of an \<^verbatim>\<open>Optional[str]\<close>: \<open>None\<close> and the empty string are false.\<close>

fun truthy_opt :: "string option \<Rightarrow> bool" where
  "truthy_opt None = False"
| "truthy_opt (Some s) = (s \<noteq> [])"

text \<open>\<^verbatim>\<open>needle in haystack\<close> on two strings: \<open>needle\<close> occurs in \<open>haystack\<close> as a substring.\<close>

fun contains :: "string \<Rightarrow> string \<Rightarrow> bool" where
  "contains needle [] = (needle = [])"
| "contains needle (c # cs) = (startswith (c # cs) needle \<or> contains needle cs)"

text \<open>
  \<^verbatim>\<open>needle in x\<close> for a string \<open>needle\<close> and any parsed value \<open>x\<close>: substring test on a
  string, membership on a list, key membership on a dict, \<open>TypeError\<close> on \<open>None\<close>, a
  number or a boolean.
\<close>

fun py_in :: "string \<Rightarrow> json \<Rightarrow> exn + bool" where
  "py_in needle (JStr s) = Inr (contains needle s)"
| "py_in needle (JArr xs) = Inr (JStr needle \<in> set xs)"
| "py_in needle (JObj members) = Inr (needle \<in> set (map fst members))"
| "py_in needle _ = Inl TypeError"

text \<open>
  \<^verbatim>\<open>s.lower()\<close>, on the letters \<open>A\<close> to \<open>Z\<close> (codes 65 to 90). Only a string has the
  method.
\<close>

definition lower_char :: "char \<Rightarrow> char" where
  "lower_char c =
     (let n = (of_char c :: nat) in if 65 \<le> n \<and> n \<le> 90 then char_of (n + 32) else c)"

fun py_lower :: "json \<Rightarrow> exn + string" where
  "py_lower (JStr s) = Inr (map lower_char s)"
| "py_lower _ = Inl AttributeError"

subsection \<open>The request, the collaborators and the response\<close>

text \<open>
  The parts of the request the service can see: the two headers and the raw body.
  \<^verbatim>\<open>request.headers.get("X-GitHub-Event", "")\<close> reads the first.
\<close>

record request =
  x_github_event :: "string option"
  x_hub_signature_256 :: "string option"
  raw_body :: string

text \<open>
  The handler's collaborators, none of which is part of the modelled file:
  \<^item> \<open>json_loads\<close> is the parser behind \<^verbatim>\<open>await request.json()\<close>; \<open>None\<close> stands for the
    body that is not JSON (the call raises);
  \<^item> \<open>make_adw_id\<close> gives the identifier returned by the \<open>n\<close>-th call of the generator;
  \<^item> \<open>extract_adw_info\<close> is the classifier of \<^verbatim>\<open>adw_modules.workflow_ops\<close>, called on
    the content and a temporary identifier, returning the workflow and the identifier
    found in the content, or raising;
  \<^item> \<open>state_save\<close> is \<^verbatim>\<open>ADWState(id)\<close> followed by \<^verbatim>\<open>update\<close> and \<^verbatim>\<open>save\<close>;
    \<open>setup_logger\<close> creates the logger; \<open>make_issue_comment\<close> posts the notice of the
    detected workflow, identifier and reason to the issue; \<open>popen\<close> starts
    \<^verbatim>\<open>uv run <workflow>.py <issue_number> <adw_id>\<close>. Each returns \<open>None\<close> or the
    exception it raised. The issue number is passed on as the parsed value the handler
    holds; the handler formats it with \<^verbatim>\<open>str\<close>.
\<close>

record env =
  json_loads :: "string \<Rightarrow> json option"
  make_adw_id :: "nat \<Rightarrow> string"
  extract_adw_info :: "string \<Rightarrow> string \<Rightarrow> exn + (string option \<times> string option)"
  state_save :: "string \<Rightarrow> json \<Rightarrow> exn option"
  setup_logger :: "string \<Rightarrow> exn option"
  make_issue_comment :: "json \<Rightarrow> string \<Rightarrow> string \<Rightarrow> string \<Rightarrow> exn option"
  popen :: "string \<Rightarrow> json \<Rightarrow> string \<Rightarrow> exn option"

text \<open>
  The calls the handler made to its collaborators, in order. The comment carries the
  outcome of posting it (\<open>None\<close> when it was posted).
\<close>

datatype effect =
    Classified string string
  | StateSaved string json
  | LoggerSetUp string
  | Commented json string string string "exn option"
  | Launched string json string

text \<open>
  The three bodies the handler returns. \<open>Accepted\<close> carries the fields \<open>issue\<close>,
  \<open>adw_id\<close>, \<open>workflow\<close> and \<open>reason\<close>; \<open>Ignored\<close> carries the event type and the action its
  \<open>reason\<close> is formatted from; \<open>Error\<close> has a fixed message.
\<close>

datatype response =
    Accepted json string string string
  | Ignored string json
  | Error


definition ADW_BOT_IDENTIFIER :: string where
  "ADW_BOT_IDENTIFIER = ''[ADW-BOT]''"

subsection \<open>The handler\<close>

text \<open>
  The lines both branches share: \<^verbatim>\<open>if "adw_" in body.lower()\<close>, the temporary
  identifier, the call of the classifier, and the reason, which is set only when a
  workflow came back. \<open>label\<close> is \<open>New issue\<close> in the first branch and \<open>Comment\<close> in the
  second. The result is the calls made and either the exception raised or
  \<open>(workflow, provided_adw_id, trigger_reason)\<close>.
\<close>

definition detect_workflow ::
  "env \<Rightarrow> json \<Rightarrow> string \<Rightarrow> effect list \<times> (exn + (string option \<times> string option \<times> string))" where
  "detect_workflow E body label =
     (case py_lower body of
        Inl e \<Rightarrow> ([], Inl e)
      | Inr lowered \<Rightarrow>
          (if contains ''adw_'' lowered
           then (case body of
                   JStr text \<Rightarrow>
                     (let temp_id = make_adw_id E 0 in
                      case extract_adw_info E text temp_id of
                        Inl e \<Rightarrow> ([Classified text temp_id], Inl e)
                      | Inr (workflow, provided_adw_id) \<Rightarrow>
                          ([Classified text temp_id],
                           Inr (workflow, provided_adw_id,
                                (case workflow of
                                   None \<Rightarrow> []
                                 | Some name \<Rightarrow>
                                     (if name = [] then []
                                      else label @ '' with '' @ name @ '' workflow'')))))
                 | _ \<Rightarrow> ([], Inl AttributeError))
           else ([], Inr (None, None, []))))"

text \<open>
  Lines 199 to 235: which workflow, if any, the event asks for. The marker is looked for
  in the second branch only.
\<close>

definition classify ::
  "env \<Rightarrow> string \<Rightarrow> json \<Rightarrow> json \<Rightarrow> json \<Rightarrow> json \<Rightarrow>
     effect list \<times> (exn + (string option \<times> string option \<times> string))" where
  "classify E event_type action issue issue_number payload =
     (if event_type = ''issues'' \<and> action = JStr ''opened'' \<and> truthy issue_number
      then (case dict_get issue ''body'' (JStr []) of
              Inl e \<Rightarrow> ([], Inl e)
            | Inr issue_body \<Rightarrow> detect_workflow E issue_body ''New issue'')
      else if event_type = ''issue_comment'' \<and> action = JStr ''created'' \<and> truthy issue_number
      then (case dict_get payload ''comment'' (JObj []) of
              Inl e \<Rightarrow> ([], Inl e)
            | Inr comment \<Rightarrow>
                (case dict_get comment ''body'' (JStr []) of
                   Inl e \<Rightarrow> ([], Inl e)
                 | Inr comment_body \<Rightarrow>
                     (case py_in ADW_BOT_IDENTIFIER comment_body of
                        Inl e \<Rightarrow> ([], Inl e)
                      | Inr True \<Rightarrow> ([], Inr (None, None, []))
                      | Inr False \<Rightarrow> detect_workflow E comment_body ''Comment'')))
      else ([], Inr (None, None, [])))"

text \<open>
  Lines 243 to 301, entered when a workflow is left after the check on \<open>adw_build\<close>.
  The comment is posted inside a \<^verbatim>\<open>try\<close> of its own whose handler only logs, so the
  outcome of \<open>make_issue_comment\<close> is recorded and changes nothing else; any other
  exception leaves the outer \<^verbatim>\<open>try\<close> block. The classifier has used the first
  identifier of the generator, so a fresh one is the second.
\<close>

definition launch ::
  "env \<Rightarrow> json \<Rightarrow> string \<Rightarrow> string option \<Rightarrow> string \<Rightarrow> effect list \<times> (exn + response)" where
  "launch E issue_number workflow provided_adw_id trigger_reason =
     (let adw_id = (if truthy_opt provided_adw_id then the provided_adw_id else make_adw_id E 1);
          saved = (if truthy_opt provided_adw_id then [StateSaved adw_id issue_number] else []);
          save_failure = (if truthy_opt provided_adw_id then state_save E adw_id issue_number else None);
          posted = make_issue_comment E issue_number workflow adw_id trigger_reason
      in case save_failure of
           Some e \<Rightarrow> (saved, Inl e)
         | None \<Rightarrow>
             (case setup_logger E adw_id of
                Some e \<Rightarrow> (saved @ [LoggerSetUp adw_id], Inl e)
              | None \<Rightarrow>
                  (case popen E workflow issue_number adw_id of
                     Some e \<Rightarrow>
                       (saved @ [LoggerSetUp adw_id,
                                 Commented issue_number workflow adw_id trigger_reason posted,
                                 Launched workflow issue_number adw_id], Inl e)
                   | None \<Rightarrow>
                       (saved @ [LoggerSetUp adw_id,
                                 Commented issue_number workflow adw_id trigger_reason posted,
                                 Launched workflow issue_number adw_id],
                        Inr (Accepted issue_number adw_id workflow trigger_reason)))))"

text \<open>The body of the \<^verbatim>\<open>try\<close> block of \<^verbatim>\<open>github_webhook\<close>.\<close>

definition try_block :: "env \<Rightarrow> request \<Rightarrow> effect list \<times> (exn + response)" where
  "try_block E req =
     (let event_type = (case x_github_event req of None \<Rightarrow> [] | Some v \<Rightarrow> v) in
      case json_loads E (raw_body req) of
        None \<Rightarrow> ([], Inl JSONDecodeError)
      | Some payload \<Rightarrow>
          (case dict_get payload ''action'' (JStr []) of
             Inl e \<Rightarrow> ([], Inl e)
           | Inr action \<Rightarrow>
               (case dict_get payload ''issue'' (JObj []) of
                  Inl e \<Rightarrow> ([], Inl e)
                | Inr issue \<Rightarrow>
                    (case dict_get issue ''number'' JNull of
                       Inl e \<Rightarrow> ([], Inl e)
                     | Inr issue_number \<Rightarrow>
                         (case classify E event_type action issue issue_number payload of
                            (calls, Inl e) \<Rightarrow> (calls, Inl e)
                          | (calls, Inr (found, provided_adw_id, trigger_reason)) \<Rightarrow>
                              (let workflow =
                                     (if found = Some ''adw_build'' \<and> \<not> truthy_opt provided_adw_id
                                      then None else found)
                               in if truthy_opt workflow
                                  then (case launch E issue_number (the workflow) provided_adw_id
                                               trigger_reason of
                                          (launched, r) \<Rightarrow> (calls @ launched, r))
                                  else (calls, Inr (Ignored event_type action))))))))"

text \<open>
  \<^verbatim>\<open>github_webhook\<close>: the counter of processed webhooks is incremented first; every
  exception of the \<^verbatim>\<open>try\<close> block is caught and answered with the error body. The result
  is the new counter, the calls made and the body returned.
\<close>

definition github_webhook :: "env \<Rightarrow> nat \<Rightarrow> request \<Rightarrow> nat \<times> effect list \<times> response" where
  "github_webhook E processed_webhooks_count req =
     (case try_block E req of
        (calls, Inl e) \<Rightarrow> (processed_webhooks_count + 1, calls, Error)
      | (calls, Inr body) \<Rightarrow> (processed_webhooks_count + 1, calls, body))"

subsection \<open>A concrete service for evaluating the handler\<close>

definition AVAILABLE_WORKFLOWS :: "string list" where
  "AVAILABLE_WORKFLOWS =
     [''adw_plan'', ''adw_build'', ''adw_test'', ''adw_plan_build'', ''adw_plan_build_test'']"

text \<open>The text that follows the first occurrence of \<open>marker\<close>, if there is one.\<close>

fun text_after :: "string \<Rightarrow> string \<Rightarrow> string option" where
  "text_after marker [] = (if marker = [] then Some [] else None)"
| "text_after marker (c # cs) =
     (if startswith (c # cs) marker then Some (drop (length marker) (c # cs))
      else text_after marker cs)"

text \<open>
  Modelled from the spec: \<^verbatim>\<open>extract_adw_info\<close> of \<^verbatim>\<open>adw_modules/workflow_ops.py\<close>, which
  is not among the sources. Section 4.4, rule 3: eligible content is scanned for a
  workflow-name token and, if one is found, parsed for an optional explicit job
  identifier. Section 8 fixes the reading: \<open>Please run adw_plan_build\<close> gives
  \<open>adw_plan_build\<close> (scenario A), so the longest workflow name that occurs is taken;
  \<open>adw_build\<close> alone gives \<open>adw_build\<close> with no identifier (scenario C);
  \<open>adw_build job-id: xyz123\<close> gives the identifier \<open>xyz123\<close> (scenario D), the word that
  follows \<open>job-id: \<close>.
\<close>

definition spec_extract_adw_info :: "string \<Rightarrow> string \<Rightarrow> exn + (string option \<times> string option)" where
  "spec_extract_adw_info text temp_adw_id =
     (case filter (\<lambda>name. contains name text) AVAILABLE_WORKFLOWS of
        [] \<Rightarrow> Inr (None, None)
      | found \<Rightarrow>
          Inr (Some (fold (\<lambda>name best. if length best < length name then name else best) found []),
               (case text_after ''job-id: '' text of
                  None \<Rightarrow> None
                | Some rest \<Rightarrow>
                    (let word = takeWhile (\<lambda>c. c \<noteq> CHR '' '') rest
                     in if word = [] then None else Some word))))"

text \<open>
  Six request bodies and what the JSON parser makes of them: a new issue asking for a
  workflow; a new issue whose body also carries the bot marker; a comment carrying the
  marker and a workflow name; a comment asking for \<open>adw_build\<close> without an identifier; a
  new issue without a number; and an array, which is JSON but not an object.
\<close>

definition plan_issue_body :: string where
  \<open>plan_issue_body =
     ''{"action": "opened", "issue": {"number": 7, "body": "Please run adw_plan_build"}}''\<close>

definition marked_issue_body :: string where
  \<open>marked_issue_body =
     ''{"action": "opened", "issue": {"number": 7, "body": "[ADW-BOT] adw_plan_build"}}''\<close>

definition marked_comment_body :: string where
  \<open>marked_comment_body =
     ''{"action": "created", "issue": {"number": 9997}, "comment": {"body": "[ADW-BOT] adw_plan_build done"}}''\<close>

definition build_comment_body :: string where
  \<open>build_comment_body =
     ''{"action": "created", "issue": {"number": 7}, "comment": {"body": "adw_build"}}''\<close>

definition unnumbered_issue_body :: string where
  \<open>unnumbered_issue_body =
     ''{"action": "opened", "issue": {"body": "Please run adw_plan_build"}}''\<close>

definition sample_payloads :: "(string \<times> json) list" where
  "sample_payloads =
     [(plan_issue_body,
         JObj [(''action'', JStr ''opened''),
               (''issue'', JObj [(''number'', JNum 7), (''body'', JStr ''Please run adw_plan_build'')])]),
      (marked_issue_body,
         JObj [(''action'', JStr ''opened''),
               (''issue'', JObj [(''number'', JNum 7), (''body'', JStr ''[ADW-BOT] adw_plan_build'')])]),
      (marked_comment_body,
         JObj [(''action'', JStr ''created''),
               (''issue'', JObj [(''number'', JNum 9997)]),
               (''comment'', JObj [(''body'', JStr ''[ADW-BOT] adw_plan_build done'')])]),
      (build_comment_body,
         JObj [(''action'', JStr ''created''),
               (''issue'', JObj [(''number'', JNum 7)]),
               (''comment'', JObj [(''body'', JStr ''adw_build'')])]),
      (unnumbered_issue_body,
         JObj [(''action'', JStr ''opened''),
               (''issue'', JObj [(''body'', JStr ''Please run adw_plan_build'')])]),
      (''[]'', JArr [])]"

text \<open>
  The service: the parser knows the bodies above and rejects every other text, the
  generator hands out two fixed identifiers, the classifier is the one modelled from the
  spec, and saving, logging, commenting and starting a process all succeed.
\<close>

definition spec_env :: env where
  "spec_env =
     \<lparr> json_loads = map_of sample_payloads,
       make_adw_id = (\<lambda>n. if n = 0 then ''a1b2c3d4'' else ''e5f6a7b8''),
       extract_adw_info = spec_extract_adw_info,
       state_save = (\<lambda>adw_id issue_number. None),
       setup_logger = (\<lambda>adw_id. None),
       make_issue_comment = (\<lambda>issue_number workflow adw_id reason. None),
       popen = (\<lambda>workflow issue_number adw_id. None) \<rparr>"

text \<open>A request of the given event type and body that carries no signature header.\<close>

definition unsigned_request :: "string \<Rightarrow> string \<Rightarrow> request" where
  "unsigned_request event_type body =
     \<lparr> x_github_event = Some event_type, x_hub_signature_256 = None, raw_body = body \<rparr>"

section \<open>Properties of the port manager\<close>





lemma kill_signals_length:
  "kill_attempts S prt force a n w = (r, tr, w') \<Longrightarrow> length (signals tr) \<le> n"
proof (induction n arbitrary: force a w r tr)
  case 0
  then show ?case by simp
next
  case (Suc n)
  from Suc.prems show ?case
    by (auto simp: Let_def split: prod.splits bool.splits option.splits sum.splits if_splits dest!: Suc.IH)
qed

lemma kill_signals_nth:
  "kill_attempts S prt force a n w = (r, tr, w') \<Longrightarrow> i < length (signals tr) \<Longrightarrow>
     signals tr ! i = (if force \<or> 0 < a + i then SIGKILL else SIGTERM)"
proof (induction n arbitrary: force a w r tr i)
  case 0
  then show ?case by simp
next
  case (Suc n)
  from Suc.prems show ?case
    by (cases i) (auto simp: Let_def split: prod.splits bool.splits option.splits sum.splits if_splits dest!: Suc.IH)
qed

lemma kill_True:
  "kill_attempts S prt force a n w = (Inr True, tr, w') \<Longrightarrow>
     tr \<noteq> [] \<and> (last tr = Looked None \<or> last tr = Reprobed False \<or>
        (\<exists>pid s. last tr = Signalled pid s (Some ProcessLookupError)))"
proof (induction n arbitrary: force a w tr)
  case 0
  then show ?case by simp
next
  case (Suc n)
  from Suc.prems show ?case
    by (auto simp: Let_def split: prod.splits bool.splits option.splits sum.splits if_splits dest!: Suc.IH)
qed

lemma kill_False:
  "kill_attempts S prt force a n w = (Inr False, tr, w') \<Longrightarrow>
     length (signals tr) = n \<or> (\<exists>pid s. tr \<noteq> [] \<and> last tr = Signalled pid s (Some PermissionError))"
proof (induction n arbitrary: force a w tr)
  case 0
  then show ?case by simp
next
  case (Suc n)
  from Suc.prems show ?case
    by (auto simp: Let_def split: prod.splits bool.splits option.splits sum.splits if_splits dest!: Suc.IH)
qed

lemma kill_freed:
  "kill_attempts S prt force a n w = (r, tr, w') \<Longrightarrow>
     Looked None \<in> set tr \<or> Reprobed False \<in> set tr \<or> (\<exists>pid s. Signalled pid s (Some ProcessLookupError) \<in> set tr)
     \<Longrightarrow> r = Inr True"
proof (induction n arbitrary: force a w r tr)
  case 0
  then show ?case by simp
next
  case (Suc n)
  from Suc.prems show ?case
    by (auto simp: Let_def split: prod.splits bool.splits option.splits sum.splits if_splits dest!: Suc.IH)
qed

lemma kill_denied:
  "kill_attempts S prt force a n w = (r, tr, w') \<Longrightarrow>
     Signalled pid s (Some PermissionError) \<in> set tr
     \<Longrightarrow> r = Inr False \<and> last tr = Signalled pid s (Some PermissionError)"
proof (induction n arbitrary: force a w r tr)
  case 0
  then show ?case by simp
next
  case (Suc n)
  from Suc.prems show ?case
    by (auto simp: Let_def split: prod.splits bool.splits option.splits sum.splits if_splits dest!: Suc.IH)
qed

lemma kill_raise:
  "kill_attempts S prt force a n w = (Inl e, tr, w') \<Longrightarrow>
     \<exists>w0. fst (get_process_using_port S prt w0) = Inl e"
proof (induction n arbitrary: force a w tr)
  case 0
  then show ?case by simp
next
  case (Suc n)
  from Suc.prems show ?case
    by (auto simp: Let_def split: prod.splits bool.splits option.splits sum.splits if_splits dest!: Suc.IH)
       (metis fst_conv)
qed

text \<open>
  C9. \<^verbatim>\<open>is_port_in_use\<close> always returns a verdict, and the verdict is \<open>False\<close> (the port is
  reported free) whenever creating the socket or the connection attempt raises.
\<close>

theorem is_port_in_use_fails_open:
  assumes "(\<exists>e. fst (socket_new S w) = Some e) \<or>
           (\<exists>e. fst (connect_ex S host prt (snd (socket_new S w))) = Inl e)"
  shows "fst (is_port_in_use S prt host w) = False"
  using assms
  by (auto simp: is_port_in_use_def split: prod.splits option.splits sum.splits)

theorem is_port_in_use_fails_open_witness:
  "(\<exists>e. fst (socket_new no_socket_sys ()) = Some e) \<and>
   fst (is_port_in_use no_socket_sys 8001 ''127.0.0.1'' ()) = False"
proof -
  have h: "\<exists>e. fst (socket_new no_socket_sys ()) = Some e"
    by (simp add: no_socket_sys_def)
  then have "fst (is_port_in_use no_socket_sys 8001 ''127.0.0.1'' ()) = False"
    by (rule is_port_in_use_fails_open [OF disjI1])
  with h show ?thesis by (rule conjI)
qed



text \<open>
  C5, against the claim as stated. The owner of port 8001 cannot be signalled
  (\<^verbatim>\<open>os.kill\<close> raises \<open>PermissionError\<close>). With \<open>max_retries = 3\<close> the function returns
  \<open>False\<close> after the first attempt: one signal was sent, nothing was retried.
\<close>

theorem kill_process_on_port_permission_denied:
  "kill_process_on_port (listeners_sys (Some PermissionError)) 8001 False 3 [(8001, 4242)]
     = (Inr False, [Looked (Some 4242), Signalled 4242 SIGTERM (Some PermissionError)], [(8001, 4242)])"
  by (simp add: kill_process_on_port_def listeners_sys_def numeral_3_eq_3)

text \<open>
  C5, as amended. For every run of \<^verbatim>\<open>kill_process_on_port\<close>:
  \<^item> at most \<open>max_retries\<close> signals are sent; the first is \<open>SIGTERM\<close> unless \<open>force\<close> is set,
    every later one is \<open>SIGKILL\<close>;
  \<^item> once the lookup finds no owner, the probe reports the port free, or the signal
    raises \<open>ProcessLookupError\<close>, the function returns \<open>True\<close>, and it returns \<open>True\<close> in no
    other way;
  \<^item> once the signal raises \<open>PermissionError\<close> the function returns \<open>False\<close> at once, that
    signal being the last thing it did;
  \<^item> it returns \<open>False\<close> only in that way or after \<open>max_retries\<close> signals, each of them
    followed by a port still in use or by another exception of \<^verbatim>\<open>os.kill\<close>;
  \<^item> the only exception that leaves the function is one raised by the lookup of the
    owner.
\<close>

theorem kill_process_on_port_outcomes:
  assumes "kill_process_on_port S prt force max_retries w = (r, tr, w')"
  shows "length (signals tr) \<le> nat max_retries \<and>
     (\<forall>i < length (signals tr). signals tr ! i = (if force \<or> 0 < i then SIGKILL else SIGTERM)) \<and>
     (Looked None \<in> set tr \<or> Reprobed False \<in> set tr \<or>
        (\<exists>pid s. Signalled pid s (Some ProcessLookupError) \<in> set tr) \<longrightarrow> r = Inr True) \<and>
     (r = Inr True \<longrightarrow> tr \<noteq> [] \<and> (last tr = Looked None \<or> last tr = Reprobed False \<or>
        (\<exists>pid s. last tr = Signalled pid s (Some ProcessLookupError)))) \<and>
     (\<forall>pid s. Signalled pid s (Some PermissionError) \<in> set tr \<longrightarrow>
        r = Inr False \<and> last tr = Signalled pid s (Some PermissionError)) \<and>
     (r = Inr False \<longrightarrow> length (signals tr) = nat max_retries \<or>
        (\<exists>pid s. tr \<noteq> [] \<and> last tr = Signalled pid s (Some PermissionError))) \<and>
     (\<forall>e. r = Inl e \<longrightarrow> (\<exists>w0. fst (get_process_using_port S prt w0) = Inl e))"
proof -
  from assms have K: "kill_attempts S prt force 0 (nat max_retries) w = (r, tr, w')"
    by (simp add: kill_process_on_port_def)
  have 1: "length (signals tr) \<le> nat max_retries"
    using kill_signals_length [OF K] .
  have 2: "\<forall>i < length (signals tr). signals tr ! i = (if force \<or> 0 < i then SIGKILL else SIGTERM)"
    using kill_signals_nth [OF K] by simp
  have 3: "Looked None \<in> set tr \<or> Reprobed False \<in> set tr \<or>
        (\<exists>pid s. Signalled pid s (Some ProcessLookupError) \<in> set tr) \<longrightarrow> r = Inr True"
    using kill_freed [OF K] by blast
  have 4: "r = Inr True \<longrightarrow> tr \<noteq> [] \<and> (last tr = Looked None \<or> last tr = Reprobed False \<or>
        (\<exists>pid s. last tr = Signalled pid s (Some ProcessLookupError)))"
  proof
    assume "r = Inr True"
    with K have "kill_attempts S prt force 0 (nat max_retries) w = (Inr True, tr, w')" by simp
    then show "tr \<noteq> [] \<and> (last tr = Looked None \<or> last tr = Reprobed False \<or>
        (\<exists>pid s. last tr = Signalled pid s (Some ProcessLookupError)))"
      by (rule kill_True)
  qed
  have 5: "\<forall>pid s. Signalled pid s (Some PermissionError) \<in> set tr \<longrightarrow>
        r = Inr False \<and> last tr = Signalled pid s (Some PermissionError)"
    using kill_denied [OF K] by blast
  have 6: "r = Inr False \<longrightarrow> length (signals tr) = nat max_retries \<or>
        (\<exists>pid s. tr \<noteq> [] \<and> last tr = Signalled pid s (Some PermissionError))"
  proof
    assume "r = Inr False"
    with K have "kill_attempts S prt force 0 (nat max_retries) w = (Inr False, tr, w')" by simp
    then show "length (signals tr) = nat max_retries \<or>
        (\<exists>pid s. tr \<noteq> [] \<and> last tr = Signalled pid s (Some PermissionError))"
      by (rule kill_False)
  qed
  have 7: "\<forall>e. r = Inl e \<longrightarrow> (\<exists>w0. fst (get_process_using_port S prt w0) = Inl e)"
  proof (intro allI impI)
    fix e assume "r = Inl e"
    with K have "kill_attempts S prt force 0 (nat max_retries) w = (Inl e, tr, w')" by simp
    then show "\<exists>w0. fst (get_process_using_port S prt w0) = Inl e"
      by (rule kill_raise)
  qed
  show ?thesis
    by (rule conjI [OF 1 conjI [OF 2 conjI [OF 3 conjI [OF 4 conjI [OF 5 conjI [OF 6 7]]]]]])
qed

theorem kill_process_on_port_outcomes_witness:
  "kill_process_on_port (listeners_sys (Some OSError)) 8001 False 3 [(8001, 4242)]
     = (Inr False,
        [Looked (Some 4242), Signalled 4242 SIGTERM (Some OSError),
         Looked (Some 4242), Signalled 4242 SIGKILL (Some OSError),
         Looked (Some 4242), Signalled 4242 SIGKILL (Some OSError)],
        [(8001, 4242)]) \<and>
   length (signals [Looked (Some 4242), Signalled 4242 SIGTERM (Some OSError),
         Looked (Some 4242), Signalled 4242 SIGKILL (Some OSError),
         Looked (Some 4242), Signalled 4242 SIGKILL (Some OSError)]) \<le> nat 3"
proof -
  have v: "kill_process_on_port (listeners_sys (Some OSError)) 8001 False 3 [(8001, 4242)]
     = (Inr False,
        [Looked (Some 4242), Signalled 4242 SIGTERM (Some OSError),
         Looked (Some 4242), Signalled 4242 SIGKILL (Some OSError),
         Looked (Some 4242), Signalled 4242 SIGKILL (Some OSError)],
        [(8001, 4242)])"
    by (simp add: kill_process_on_port_def listeners_sys_def numeral_3_eq_3)
  have "length (signals [Looked (Some 4242), Signalled 4242 SIGTERM (Some OSError),
         Looked (Some 4242), Signalled 4242 SIGKILL (Some OSError),
         Looked (Some 4242), Signalled 4242 SIGKILL (Some OSError)]) \<le> nat 3"
    by (rule kill_process_on_port_outcomes [OF v, THEN conjunct1])
  with v show ?thesis by (rule conjI)
qed

section \<open>Properties of the tunnel manager and of signature validation\<close>

text \<open>
  C6, against the claim as stated. The tunnel process cannot be signalled, so
  \<^verbatim>\<open>terminate\<close> raises; the handler logs the error, and after the call the handle and
  the public URL are still stored.
\<close>

theorem stop_tunnel_keeps_state_on_error:
  "stop_tunnel unsignallable_proc running_manager ()
     = (running_manager, [Terminated 4711 (Some PermissionError)], ()) \<and>
   process running_manager = Some 4711 \<and>
   tunnel_url running_manager = Some ''https://abc.ngrok.io''"
  by (simp add: stop_tunnel_def unsignallable_proc_def running_manager_def)

text \<open>
  C6, as amended. Without a stored handle \<^verbatim>\<open>stop_tunnel\<close> does nothing. With a handle
  it first asks the process to terminate and, if that call returned, waits at most five
  seconds; it kills the process exactly when that wait timed out. If no exception
  reached the outer handler, the handle and the public URL are cleared; if one did
  (raised by \<^verbatim>\<open>terminate\<close>, \<^verbatim>\<open>kill\<close> or the final wait, or by the bounded wait other
  than its timeout), the manager is left as it was.
\<close>

theorem stop_tunnel_outcomes:
  assumes "stop_tunnel P self w = (self', tr, w')"
  shows "(process self = None \<longrightarrow> self' = self \<and> tr = []) \<and>
     (\<forall>p. process self = Some p \<longrightarrow>
        (\<exists>r. tr \<noteq> [] \<and> hd tr = Terminated p r) \<and>
        (Terminated p None \<in> set tr \<longrightarrow> (\<exists>r. Waited p (Some 5) r \<in> set tr)) \<and>
        ((\<exists>r. Killed p r \<in> set tr) = (Waited p (Some 5) (Some TimeoutExpired) \<in> set tr)) \<and>
        ((\<forall>ev \<in> set tr. \<not> reached_handler ev) \<longrightarrow>
            self' = self\<lparr>process := None, tunnel_url := None\<rparr>) \<and>
        ((\<exists>ev \<in> set tr. reached_handler ev) \<longrightarrow> self' = self))"
proof (cases "process self")
  case None
  with assms show ?thesis by (simp add: stop_tunnel_def)
next
  case (Some p)
  with assms show ?thesis
    by (auto simp: stop_tunnel_def split: prod.splits option.splits if_splits)
qed

theorem stop_tunnel_outcomes_witness:
  "stop_tunnel stubborn_proc running_manager ()
     = (running_manager\<lparr>process := None, tunnel_url := None\<rparr>,
        [Terminated 4711 None, Waited 4711 (Some 5) (Some TimeoutExpired), Killed 4711 None,
         Waited 4711 None None], ()) \<and>
   (\<exists>r. Killed 4711 r \<in> set [Terminated 4711 None, Waited 4711 (Some 5) (Some TimeoutExpired),
         Killed 4711 None, Waited 4711 None None])"
proof -
  have run: "stop_tunnel stubborn_proc running_manager ()
     = (running_manager\<lparr>process := None, tunnel_url := None\<rparr>,
        [Terminated 4711 None, Waited 4711 (Some 5) (Some TimeoutExpired), Killed 4711 None,
         Waited 4711 None None], ())"
    by (simp add: stop_tunnel_def stubborn_proc_def running_manager_def)
  have handle: "process running_manager = Some 4711"
    by (simp add: running_manager_def)
  have timed_out: "Waited 4711 (Some 5) (Some TimeoutExpired) \<in>
      set [Terminated 4711 None, Waited 4711 (Some 5) (Some TimeoutExpired), Killed 4711 None,
         Waited 4711 None None]"
    by simp
  from stop_tunnel_outcomes [OF run] handle timed_out
  have "\<exists>r. Killed 4711 r \<in> set [Terminated 4711 None, Waited 4711 (Some 5) (Some TimeoutExpired),
         Killed 4711 None, Waited 4711 None None]"
    by blast
  with run show ?thesis by (rule conjI)
qed

lemma startswith_sha256: "startswith header ''sha256='' = (take 7 header = ''sha256='')"
proof -
  have "length ''sha256='' = 7" by simp
  then show ?thesis unfolding startswith_def by (simp only:)
qed

lemma validate_github_signature_true_iff:
  assumes "is_ascii (hexdigest secret payload_body)"
  shows "(validate_github_signature hexdigest payload_body signature_header secret = Inr True) =
     (\<exists>header. signature_header = Some header \<and> secret \<noteq> [] \<and> startswith header ''sha256='' \<and>
        drop 7 header = hexdigest secret payload_body)"
proof (cases signature_header)
  case None
  then show ?thesis by (simp add: validate_github_signature_def)
next
  case (Some header)
  have "header = [] \<Longrightarrow> \<not> startswith header ''sha256=''"
    by (simp add: startswith_def)
  with Some assms show ?thesis
    by (auto simp: validate_github_signature_def compare_digest_def Let_def)
qed

lemma validate_github_signature_flipped_header:
  assumes "validate_github_signature hexdigest payload_body (Some header) secret = Inr True"
      and "i < length header" and "c \<noteq> header ! i"
  shows "validate_github_signature hexdigest payload_body (Some (header[i := c])) secret \<noteq> Inr True"
proof
  assume flipped: "validate_github_signature hexdigest payload_body (Some (header[i := c])) secret = Inr True"
  from assms(1) have 1: "take 7 header = ''sha256=''" "is_ascii (hexdigest secret payload_body)"
      "drop 7 header = hexdigest secret payload_body"
    by (auto simp: validate_github_signature_def compare_digest_def startswith_sha256 Let_def
             split: if_splits)
  from flipped have 2: "take 7 (header[i := c]) = ''sha256=''"
      "drop 7 (header[i := c]) = hexdigest secret payload_body"
    by (auto simp: validate_github_signature_def compare_digest_def startswith_sha256 Let_def
             split: if_splits)
  from 1 2 have "take 7 (header[i := c]) @ drop 7 (header[i := c]) = take 7 header @ drop 7 header"
    by simp
  then have "header[i := c] = header" by simp
  with assms(2) assms(3) show False
    by (metis nth_list_update_eq)
qed

text \<open>
  C4, at the failing input. The header carries the prefix \<open>sha256=\<close> followed by the
  character with code 233 (a byte of a digest flipped out of the ASCII range): whatever
  the body and the digest computed from it, the function raises \<open>TypeError\<close> where its
  documentation and the claim have it return \<open>False\<close>.
\<close>

theorem validate_github_signature_non_ascii_header:
  "validate_github_signature hexdigest payload_body (Some (''sha256='' @ [CHR 0xE9])) ''s3cret''
     = Inl TypeError"
  by (simp add: validate_github_signature_def startswith_def compare_digest_def is_ascii_def)

section \<open>Properties of the webhook handler\<close>

lemma detect_workflow_calls:
  "detect_workflow E body label = (calls, r) \<Longrightarrow> Classified content tid \<in> set calls \<Longrightarrow>
     calls = [Classified content tid] \<and>
     (case r of
        Inl e \<Rightarrow> extract_adw_info E content tid = Inl e
      | Inr (workflow, provided_adw_id, reason) \<Rightarrow>
          extract_adw_info E content tid = Inr (workflow, provided_adw_id))"
  by (auto simp: detect_workflow_def Let_def
           split: sum.splits if_splits json.splits prod.splits)

lemma classify_calls:
  "classify E event_type action issue issue_number payload = (calls, r) \<Longrightarrow>
     Classified content tid \<in> set calls \<Longrightarrow>
     calls = [Classified content tid] \<and>
     (case r of
        Inl e \<Rightarrow> extract_adw_info E content tid = Inl e
      | Inr (workflow, provided_adw_id, reason) \<Rightarrow>
          extract_adw_info E content tid = Inr (workflow, provided_adw_id))"
  unfolding classify_def
  by (auto split: if_splits sum.splits bool.splits dest: detect_workflow_calls)

lemma launch_calls:
  "launch E issue_number workflow provided_adw_id reason = (calls, r) \<Longrightarrow>
     Classified content tid \<notin> set calls"
  by (auto simp: launch_def Let_def split: option.splits if_splits)

text \<open>
  C7. Whenever the handler has classified a content and the classifier answered
  \<open>adw_build\<close> with no identifier (\<open>None\<close> or the empty string), the event is ignored: the
  body returned is the ignored one, and the call of the classifier is the only call the
  handler made, so no state is saved under a generated identifier, no comment is posted
  and no process is started. The classifier is called for eligible events only.
\<close>

theorem adw_build_without_id_is_ignored:
  assumes "github_webhook E n req = (n', calls, body)"
      and "Classified content tid \<in> set calls"
      and "extract_adw_info E content tid = Inr (Some ''adw_build'', provided_adw_id)"
      and "\<not> truthy_opt provided_adw_id"
  shows "calls = [Classified content tid] \<and> (\<exists>event_type action. body = Ignored event_type action)"
proof -
  obtain cs r where T: "try_block E req = (cs, r)" by (cases "try_block E req")
  with assms(1) have cs: "cs = calls" by (auto simp: github_webhook_def split: sum.splits)
  define event_type where "event_type = (case x_github_event req of None \<Rightarrow> [] | Some v \<Rightarrow> v)"
  from T obtain payload action issue issue_number c0 r0 where
    P: "json_loads E (raw_body req) = Some payload"
       "dict_get payload ''action'' (JStr []) = Inr action"
       "dict_get payload ''issue'' (JObj []) = Inr issue"
       "dict_get issue ''number'' JNull = Inr issue_number"
       "classify E event_type action issue issue_number payload = (c0, r0)"
    using assms(2) cs
    by (auto simp: try_block_def Let_def event_type_def split: option.splits sum.splits prod.splits)
  show ?thesis
  proof (cases r0)
    case (Inl e)
    with T P cs have "c0 = calls"
      by (auto simp: try_block_def Let_def event_type_def)
    with P(5) Inl assms(2) have "extract_adw_info E content tid = Inl e"
      using classify_calls [of E event_type action issue issue_number payload calls r0 content tid]
      by simp
    with assms(3) show ?thesis by simp
  next
    case (Inr triple)
    obtain found prov reason where triple: "triple = (found, prov, reason)" by (cases triple)
    define workflow where
      "workflow = (if found = Some ''adw_build'' \<and> \<not> truthy_opt prov then None else found)"
    show ?thesis
    proof (cases "truthy_opt workflow")
      case True
      obtain launched r1 where L: "launch E issue_number (the workflow) prov reason = (launched, r1)"
        by (cases "launch E issue_number (the workflow) prov reason")
      from T P Inr triple True L have "cs = c0 @ launched"
        by (auto simp: try_block_def Let_def workflow_def event_type_def)
      with cs assms(2) launch_calls [OF L] have "Classified content tid \<in> set c0" by auto
      with P(5) Inr triple have "extract_adw_info E content tid = Inr (found, prov)"
        using classify_calls [of E event_type action issue issue_number payload c0 r0 content tid]
        by simp
      with assms(3) assms(4) have "workflow = None" by (simp add: workflow_def)
      with True show ?thesis by simp
    next
      case False
      from T P Inr triple False have "cs = c0" "r = Inr (Ignored event_type action)"
        by (auto simp: try_block_def Let_def workflow_def event_type_def)
      moreover from this cs P(5) assms(2) have "c0 = [Classified content tid]"
        using classify_calls [of E event_type action issue issue_number payload c0 r0 content tid]
        by simp
      ultimately show ?thesis using T assms(1) cs by (auto simp: github_webhook_def)
    qed
  qed
qed

theorem adw_build_without_id_is_ignored_witness:
  "github_webhook spec_env 0 (unsigned_request ''issue_comment'' build_comment_body)
     = (1, [Classified ''adw_build'' ''a1b2c3d4''], Ignored ''issue_comment'' (JStr ''created''))"
proof -
  have run: "github_webhook spec_env 0 (unsigned_request ''issue_comment'' build_comment_body)
     = (1, [Classified ''adw_build'' ''a1b2c3d4''], Ignored ''issue_comment'' (JStr ''created''))"
    by code_simp
  have mem: "Classified ''adw_build'' ''a1b2c3d4'' \<in> set [Classified ''adw_build'' ''a1b2c3d4'']"
    by simp
  have cls: "extract_adw_info spec_env ''adw_build'' ''a1b2c3d4'' = Inr (Some ''adw_build'', None)"
    by code_simp
  have "[Classified ''adw_build'' ''a1b2c3d4''] = [Classified ''adw_build'' ''a1b2c3d4''] \<and>
        (\<exists>event_type action. Ignored ''issue_comment'' (JStr ''created'') = Ignored event_type action)"
    by (rule adw_build_without_id_is_ignored [OF run mem cls]) simp
  with run show ?thesis by simp
qed








text \<open>
  C1, against the claim as stated. A secret is configured and the request carries no
  signature header, so its signature fails validation; the handler classifies the content
  and launches the workflow all the same.
\<close>

theorem unsigned_request_is_launched:
  "validate_github_signature (\<lambda>key msg. [])
       (raw_body (unsigned_request ''issues'' plan_issue_body))
       (x_hub_signature_256 (unsigned_request ''issues'' plan_issue_body)) ''s3cret'' = Inr False \<and>
   github_webhook spec_env 0 (unsigned_request ''issues'' plan_issue_body)
     = (1,
        [Classified ''Please run adw_plan_build'' ''a1b2c3d4'',
         LoggerSetUp ''e5f6a7b8'',
         Commented (JNum 7) ''adw_plan_build'' ''e5f6a7b8'' ''New issue with adw_plan_build workflow'' None,
         Launched ''adw_plan_build'' (JNum 7) ''e5f6a7b8''],
        Accepted (JNum 7) ''e5f6a7b8'' ''adw_plan_build'' ''New issue with adw_plan_build workflow'')"
  by code_simp

text \<open>
  C1, as amended. The handler validates no signature: it reads neither a secret nor the
  signature header. Its result (counter, calls to the classifier and the launcher, body)
  is the same whatever signature header the request carries.
\<close>

theorem github_webhook_ignores_signature:
  "github_webhook E n (req\<lparr>x_hub_signature_256 := signature_header\<rparr>) = github_webhook E n req"
  by (simp add: github_webhook_def try_block_def)

end
